theory Spec2Isabelle
  imports Complex_Main
begin

section \<open>JavaScript values and the ambient runtime\<close>

text \<open>
  The services are TypeScript classes whose webhook bodies arrive as \<^verbatim>\<open>any\<close> and are
  cast without a check. A property that the code dereferences (\<^verbatim>\<open>payload.issue\<close>,
  \<^verbatim>\<open>issue.fields\<close>, \<^verbatim>\<open>fields.status\<close>, \<^verbatim>\<open>payload.repository\<close>, \<^verbatim>\<open>pr.user\<close>,
  \<^verbatim>\<open>commit.author\<close>) is therefore an \<open>option\<close>: reading a property of \<^verbatim>\<open>undefined\<close>
  throws a \<^verbatim>\<open>TypeError\<close>, which is the only exception the code can raise.
  \<open>TypeError p\<close> records the property \<open>p\<close> whose read failed.
\<close>

datatype js_error = TypeError string

text \<open>
  The result of a property lookup on an object literal: \<^verbatim>\<open>undefined\<close>, a string stored
  in the literal, or a member inherited from \<^verbatim>\<open>Object.prototype\<close> (a function, or the
  prototype object itself for \<^verbatim>\<open>__proto__\<close>).
\<close>

datatype js_value = JUndefined | JString string | JInherited string

text \<open>
  A JavaScript number is a real or \<open>NaN\<close>. Every arithmetic operation of the runtime
  returns the double nearest to the exact result: that rounding is the function
  \<open>round_double\<close> of the world below, applied after each operation.
\<close>

datatype js_number = NaN | Num real

fun truthy :: "js_value \<Rightarrow> bool" where
  "truthy JUndefined = False"
| "truthy (JString s) = (s \<noteq> [])"
| "truthy (JInherited k) = True"

text \<open>The own property names of \<^verbatim>\<open>Object.prototype\<close>, which every object literal inherits.\<close>

definition Object_prototype :: "string list" where
  "Object_prototype =
     [''constructor'', ''__defineGetter__'', ''__defineSetter__'', ''hasOwnProperty'',
      ''__lookupGetter__'', ''__lookupSetter__'', ''isPrototypeOf'', ''propertyIsEnumerable'',
      ''toString'', ''valueOf'', ''__proto__'', ''toLocaleString'']"

text \<open>\<^verbatim>\<open>obj[k]\<close> on an object literal with string values: own properties first, then the prototype.\<close>

definition getProperty :: "(string \<times> string) list \<Rightarrow> string \<Rightarrow> js_value" where
  "getProperty obj k =
     (case map_of obj k of
        Some v \<Rightarrow> JString v
      | None \<Rightarrow> if k \<in> set Object_prototype then JInherited k else JUndefined)"

text \<open>Decimal rendering of an integer inside a template literal.\<close>

definition digit_char :: "nat \<Rightarrow> char" where
  "digit_char d = ''0123456789'' ! d"

fun show_nat :: "nat \<Rightarrow> string" where
  "show_nat n = (if n < 10 then [digit_char n] else show_nat (n div 10) @ [digit_char (n mod 10)])"

declare show_nat.simps [simp del]

definition show_int :: "int \<Rightarrow> string" where
  "show_int i = (if i < 0 then CHR ''-'' # show_nat (nat (- i)) else show_nat (nat i))"

section \<open>Jira types (JiraTypes)\<close>

text \<open>
  A field name that several interfaces share (\<^verbatim>\<open>id\<close>, \<^verbatim>\<open>key\<close>, \<^verbatim>\<open>name\<close>,
  \<^verbatim>\<open>status\<close>, \<^verbatim>\<open>fields\<close>) carries the name of its interface in front. A status
  name is the property key it is used as, that is, the string it is coerced to.
\<close>

record JiraStatus =
  status_name :: string
  status_id :: string

record JiraFields =
  summary :: string
  fields_status :: "JiraStatus option"
  updated :: string

record JiraIssue =
  issue_id :: string
  issue_key :: string
  issue_fields :: "JiraFields option"

record JiraWebhookPayload =
  timestamp :: int
  webhookEvent :: string
  issue :: "JiraIssue option"

datatype SyncStatus = SUCCESS | FAILURE | RETRY_QUEUED

text \<open>\<open>error\<close> holds the caught exception; the source stores \<^verbatim>\<open>String(error)\<close>.\<close>

record SyncResult =
  status :: SyncStatus
  externalId :: string
  internalId :: "string option"
  error :: "js_error option"

section \<open>The world: console, retry queue, random source\<close>

text \<open>
  One constructor per \<^verbatim>\<open>console\<close> call site of the functions modelled below, carrying
  the interpolated values. The two \<^verbatim>\<open>[DB] PERSIST\<close> lines are the only persistence the
  code has.
\<close>

datatype console_entry =
    GITHUB_WEBHOOK_Received "string option"
  | GITHUB_WEBHOOK_Signature_mismatch
  | GITHUB_WEBHOOK_Not_tracked "string option"
  | GITHUB_TRACK_Processing int string
  | GITHUB_COMMIT_Ingesting nat string
  | GITHUB_COMMIT_Tracking string string
  | DB_PERSIST_PR int js_number
  | JIRA_WEBHOOK_Received
  | JIRA_WEBHOOK_Security_alert
  | JIRA_SYNC_Processing string string
  | JIRA_SYNC_Mapping string js_value
  | JIRA_SYNC_Failed string js_error
  | JIRA_RETRY_Queuing string
  | DB_PERSIST_Entity string js_value

text \<open>The closure \<^verbatim>\<open>() => this.syncIssue(payload)\<close> pushed on \<^verbatim>\<open>retryQueue\<close>.\<close>

datatype RetryTask = SyncIssueTask JiraWebhookPayload

text \<open>
  \<open>random_draws\<close> is the sequence of values \<^verbatim>\<open>Math.random()\<close> will return (each in
  \<open>[0, 1)\<close>) and \<open>random_pos\<close> the number of draws made so far. \<open>round_double\<close> and
  \<open>date_parse\<close> are the runtime's rounding to the nearest double and its date parser
  (the milliseconds since the epoch, or \<open>None\<close> for an invalid date); no function of
  the services changes them.
\<close>

record world =
  console :: "console_entry list"
  retryQueue :: "RetryTask list"
  random_draws :: "nat \<Rightarrow> real"
  random_pos :: nat
  round_double :: "real \<Rightarrow> real"
  date_parse :: "string \<Rightarrow> int option"

definition emit :: "console_entry \<Rightarrow> world \<Rightarrow> world" where
  "emit e w = w\<lparr>console := console w @ [e]\<rparr>"

definition Math_random :: "world \<Rightarrow> real \<times> world" where
  "Math_random w = (random_draws w (random_pos w), w\<lparr>random_pos := Suc (random_pos w)\<rparr>)"

section \<open>JiraIntegrationService\<close>

definition resolveInternalEntity :: "string \<Rightarrow> world \<Rightarrow> string \<times> world" where
  "resolveInternalEntity jiraKey w =
     (case Math_random w of
        (r, w') \<Rightarrow> (''SHIP-'' @ show_int \<lfloor>round_double w (r * 1000)\<rfloor>, w'))"

definition statusMap :: "(string \<times> string) list" where
  "statusMap =
     [(''To Do'', ''BACKLOG''), (''In Progress'', ''ACTIVE''),
      (''Done'', ''RELEASED''), (''Closed'', ''RELEASED'')]"

definition mapJiraStatusToInternal :: "string \<Rightarrow> js_value" where
  "mapJiraStatusToInternal st =
     (let v = getProperty statusMap st in if truthy v then v else JString ''UNKNOWN'')"

definition persistUpdate :: "string \<Rightarrow> js_value \<Rightarrow> world \<Rightarrow> world" where
  "persistUpdate ident st w = emit (DB_PERSIST_Entity ident st) w"

definition queueForRetry :: "JiraWebhookPayload \<Rightarrow> world \<Rightarrow> (js_error + unit) \<times> world" where
  "queueForRetry payload w =
     (case issue payload of
        None \<Rightarrow> (Inl (TypeError ''key''), w)
      | Some iss \<Rightarrow>
          (Inr (), (emit (JIRA_RETRY_Queuing (issue_key iss)) w)
                     \<lparr>retryQueue := retryQueue w @ [SyncIssueTask payload]\<rparr>))"

text \<open>The body of the \<^verbatim>\<open>try\<close> block of \<^verbatim>\<open>syncIssue\<close>.\<close>

definition syncIssue_try :: "JiraIssue \<Rightarrow> world \<Rightarrow> (js_error + SyncResult) \<times> world" where
  "syncIssue_try iss w =
     (case resolveInternalEntity (issue_key iss) w of
        (ident, w1) \<Rightarrow>
          (case issue_fields iss of
             None \<Rightarrow> (Inl (TypeError ''status''), w1)
           | Some fs \<Rightarrow>
               (case fields_status fs of
                  None \<Rightarrow> (Inl (TypeError ''name''), w1)
                | Some st \<Rightarrow>
                    (let normalizedStatus = mapJiraStatusToInternal (status_name st);
                         w2 = emit (JIRA_SYNC_Mapping (issue_key iss) normalizedStatus) w1;
                         w3 = persistUpdate ident normalizedStatus w2
                     in (Inr \<lparr>status = SUCCESS, externalId = issue_id iss,
                               internalId = Some ident, error = None\<rparr>, w3)))))"

definition syncIssue :: "JiraWebhookPayload \<Rightarrow> world \<Rightarrow> (js_error + SyncResult) \<times> world" where
  "syncIssue payload w =
     (case issue payload of
        None \<Rightarrow> (Inl (TypeError ''key''), w)
      | Some iss \<Rightarrow>
          (case syncIssue_try iss (emit (JIRA_SYNC_Processing (webhookEvent payload) (issue_key iss)) w) of
             (Inr res, w1) \<Rightarrow> (Inr res, w1)
           | (Inl err, w1) \<Rightarrow>
               (case queueForRetry payload (emit (JIRA_SYNC_Failed (issue_key iss) err) w1) of
                  (Inl e, w2) \<Rightarrow> (Inl e, w2)
                | (Inr u, w2) \<Rightarrow>
                    (Inr \<lparr>status = RETRY_QUEUED, externalId = issue_id iss,
                          internalId = None, error = Some err\<rparr>, w2))))"

section \<open>JiraWebhookHandler\<close>

text \<open>\<^verbatim>\<open>!!sig\<close>: a missing signature (\<^verbatim>\<open>undefined\<close>) and the empty string are falsy.\<close>

definition isValidSignature :: "string option \<Rightarrow> bool" where
  "isValidSignature sig = (case sig of None \<Rightarrow> False | Some s \<Rightarrow> s \<noteq> [])"

text \<open>The result is the \<^verbatim>\<open>statusCode\<close> of the returned object.\<close>

definition handleWebhook ::
  "JiraWebhookPayload \<Rightarrow> string option \<Rightarrow> world \<Rightarrow> (js_error + nat) \<times> world" where
  "handleWebhook body signature w =
     (let w1 = emit JIRA_WEBHOOK_Received w in
      if \<not> isValidSignature signature then (Inr 401, emit JIRA_WEBHOOK_Security_alert w1)
      else
        (case syncIssue body w1 of
           (Inl e, w2) \<Rightarrow> (Inl e, w2)
         | (Inr result, w2) \<Rightarrow> if status result = SUCCESS then (Inr 200, w2) else (Inr 202, w2)))"

section \<open>GitHub types (GithubTypes)\<close>

record GithubUser =
  login :: string

record GithubPullRequest =
  pr_id :: int
  pr_number :: int
  pr_title :: string
  pr_user :: "GithubUser option"
  pr_additions :: int
  pr_deletions :: int
  created_at :: string
  merged_at :: "string option"

record GithubCommitAuthor =
  author_name :: string

record GithubCommit =
  commit_id :: string
  commit_message :: string
  commit_author :: "GithubCommitAuthor option"
  commit_timestamp :: string

record GithubRepository =
  full_name :: string
  repo_id :: int

record GithubWebhookPayload =
  action :: "string option"
  pull_request :: "GithubPullRequest option"
  commits :: "GithubCommit list option"
  repository :: "GithubRepository option"

record GithubPRMetadata =
  meta_id :: int
  meta_number :: int
  title :: string
  author :: string
  additions :: int
  deletions :: int
  reviewCycles :: int
  createdAt :: string
  mergedAt :: "string option"
  timeToMergeHours :: js_number

section \<open>GithubIntegrationService\<close>

text \<open>
  Arithmetic on JavaScript numbers, \<open>fl\<close> being the rounding to the nearest double:
  \<open>NaN\<close> is absorbing. The right operands are the nonzero constants of the source.
  \<^verbatim>\<open>Math.round\<close> is exact and rounds a tie upwards.
\<close>

fun js_minus :: "(real \<Rightarrow> real) \<Rightarrow> js_number \<Rightarrow> js_number \<Rightarrow> js_number" where
  "js_minus fl (Num a) (Num b) = Num (fl (a - b))"
| "js_minus fl a b = NaN"

fun js_times :: "(real \<Rightarrow> real) \<Rightarrow> js_number \<Rightarrow> real \<Rightarrow> js_number" where
  "js_times fl (Num a) c = Num (fl (a * c))"
| "js_times fl NaN c = NaN"

fun js_div :: "(real \<Rightarrow> real) \<Rightarrow> js_number \<Rightarrow> real \<Rightarrow> js_number" where
  "js_div fl (Num a) c = Num (fl (a / c))"
| "js_div fl NaN c = NaN"

fun Math_round :: "js_number \<Rightarrow> js_number" where
  "Math_round (Num a) = Num (of_int \<lfloor>a + 1 / 2\<rfloor>)"
| "Math_round NaN = NaN"


text \<open>
  \<^verbatim>\<open>new Date(s).getTime()\<close>: a whole number of milliseconds, which is a double since a
  time value is at most \<open>8.64e15\<close> in magnitude, or \<open>NaN\<close>.
\<close>

definition Date_getTime :: "world \<Rightarrow> string \<Rightarrow> js_number" where
  "Date_getTime w s = (case date_parse w s of None \<Rightarrow> NaN | Some ms \<Rightarrow> Num (of_int ms))"

definition fetchReviewCycles :: "int \<Rightarrow> world \<Rightarrow> int \<times> world" where
  "fetchReviewCycles prNumber w = (case Math_random w of (r, w') \<Rightarrow> (\<lfloor>round_double w (r * 5)\<rfloor> + 1, w'))"

definition savePRMetadata :: "GithubPRMetadata \<Rightarrow> world \<Rightarrow> world" where
  "savePRMetadata meta w = emit (DB_PERSIST_PR (meta_number meta) (timeToMergeHours meta)) w"

text \<open>\<^verbatim>\<open>pr.merged_at ? new Date(pr.merged_at) : null\<close> followed by the guarded subtraction.\<close>

definition timeToMerge :: "world \<Rightarrow> GithubPullRequest \<Rightarrow> js_number" where
  "timeToMerge w pr =
     (case merged_at pr of
        None \<Rightarrow> Num 0
      | Some m \<Rightarrow>
          if m = [] then Num 0
          else js_div (round_double w)
                 (js_minus (round_double w) (Date_getTime w m) (Date_getTime w (created_at pr)))
                 (1000 * 60 * 60))"

definition trackPullRequest ::
  "GithubWebhookPayload \<Rightarrow> world \<Rightarrow> (js_error + GithubPRMetadata option) \<times> world" where
  "trackPullRequest payload w =
     (case pull_request payload of
        None \<Rightarrow> (Inr None, w)
      | Some pr \<Rightarrow>
          (case repository payload of
             None \<Rightarrow> (Inl (TypeError ''full_name''), w)
           | Some repo \<Rightarrow>
               (let w1 = emit (GITHUB_TRACK_Processing (pr_number pr) (full_name repo)) w in
                case pr_user pr of
                  None \<Rightarrow> (Inl (TypeError ''login''), w1)
                | Some u \<Rightarrow>
                    (case fetchReviewCycles (pr_number pr) w1 of
                       (cycles, w2) \<Rightarrow>
                         (let metadata =
                                \<lparr>meta_id = pr_id pr, meta_number = pr_number pr,
                                 title = pr_title pr, author = login u,
                                 additions = pr_additions pr, deletions = pr_deletions pr,
                                 reviewCycles = cycles, createdAt = created_at pr,
                                 mergedAt = merged_at pr,
                                 timeToMergeHours =
                                   js_div (round_double w)
                                     (Math_round (js_times (round_double w) (timeToMerge w pr) 100))
                                     100\<rparr>
                          in (Inr (Some metadata), savePRMetadata metadata w2))))))"

fun trackCommits :: "GithubCommit list \<Rightarrow> world \<Rightarrow> (js_error + unit) \<times> world" where
  "trackCommits [] w = (Inr (), w)"
| "trackCommits (c # cs) w =
     (case commit_author c of
        None \<Rightarrow> (Inl (TypeError ''name''), w)
      | Some a \<Rightarrow>
          trackCommits cs (emit (GITHUB_COMMIT_Tracking (take 7 (commit_id c)) (author_name a)) w))"

definition monitorCommits :: "GithubWebhookPayload \<Rightarrow> world \<Rightarrow> (js_error + unit) \<times> world" where
  "monitorCommits payload w =
     (let cs = (case commits payload of None \<Rightarrow> [] | Some l \<Rightarrow> l) in
      case repository payload of
        None \<Rightarrow> (Inl (TypeError ''full_name''), w)
      | Some repo \<Rightarrow> trackCommits cs (emit (GITHUB_COMMIT_Ingesting (length cs) (full_name repo)) w))"

section \<open>GithubWebhookHandler\<close>

text \<open>The payload plays no part in the check.\<close>

definition verifySignature :: "string option \<Rightarrow> GithubWebhookPayload \<Rightarrow> bool" where
  "verifySignature sig payload = (case sig of None \<Rightarrow> False | Some s \<Rightarrow> s \<noteq> [])"

text \<open>The result is the \<^verbatim>\<open>status\<close> string of the returned object.\<close>

definition handleEvent ::
  "(string \<rightharpoonup> string) \<Rightarrow> GithubWebhookPayload \<Rightarrow> world \<Rightarrow> (js_error + string) \<times> world" where
  "handleEvent headers body w =
     (let eventType = headers ''x-github-event'';
          signature = headers ''x-hub-signature-256'';
          w1 = emit (GITHUB_WEBHOOK_Received eventType) w in
      if \<not> verifySignature signature body
      then (Inr ''UNAUTHORIZED'', emit GITHUB_WEBHOOK_Signature_mismatch w1)
      else if eventType = Some ''pull_request'' then
        (case trackPullRequest body w1 of
           (Inl e, w2) \<Rightarrow> (Inl e, w2)
         | (Inr m, w2) \<Rightarrow> (Inr ''ACCEPTED'', w2))
      else if eventType = Some ''push'' then
        (case monitorCommits body w1 of
           (Inl e, w2) \<Rightarrow> (Inl e, w2)
         | (Inr u, w2) \<Rightarrow> (Inr ''ACCEPTED'', w2))
      else (Inr ''ACCEPTED'', emit (GITHUB_WEBHOOK_Not_tracked eventType) w1))"

section \<open>Observations on a world\<close>

fun isPersist :: "console_entry \<Rightarrow> bool" where
  "isPersist (DB_PERSIST_Entity ident st) = True"
| "isPersist (DB_PERSIST_PR n t) = True"
| "isPersist e = False"

text \<open>The persistence writes made so far, oldest first.\<close>

definition persistWrites :: "world \<Rightarrow> console_entry list" where
  "persistWrites w = filter isPersist (console w)"

text \<open>The status most recently written for an entity, if any.\<close>

fun lastStatus :: "string \<Rightarrow> console_entry list \<Rightarrow> js_value option" where
  "lastStatus ident [] = None"
| "lastStatus ident (DB_PERSIST_Entity i st # es) =
     (case lastStatus ident es of
        Some later \<Rightarrow> Some later
      | None \<Rightarrow> if i = ident then Some st else None)"
| "lastStatus ident (e # es) = lastStatus ident es"

definition persistedStatus :: "string \<Rightarrow> world \<Rightarrow> js_value option" where
  "persistedStatus ident w = lastStatus ident (console w)"

section \<open>Re-running queued tasks\<close>

text \<open>
  Calling a queued closure runs \<^verbatim>\<open>syncIssue\<close> on the payload it captured. Nothing in the
  source takes a task off \<^verbatim>\<open>retryQueue\<close>; \<open>reattempts n\<close> is what a worker calling
  the closure of one payload \<open>n\<close> times in a row would leave behind.
\<close>

definition runTask :: "RetryTask \<Rightarrow> world \<Rightarrow> (js_error + SyncResult) \<times> world" where
  "runTask t w = (case t of SyncIssueTask payload \<Rightarrow> syncIssue payload w)"

fun reattempts :: "nat \<Rightarrow> JiraWebhookPayload \<Rightarrow> world \<Rightarrow> world" where
  "reattempts 0 payload w = w"
| "reattempts (Suc n) payload w = reattempts n payload (snd (runTask (SyncIssueTask payload) w))"

section \<open>Reading a rendered number back\<close>

definition read_nat :: "string \<Rightarrow> nat" where
  "read_nat s = foldl (\<lambda>a c. 10 * a + (of_char c - 48)) 0 s"

section \<open>Sample inputs\<close>

text \<open>
  Two dates five and a half hours apart, and worlds whose numbers are all doubles, on
  which rounding is the identity. \<open>sample_world\<close> draws \<open>0.25\<close> first and \<open>0.75\<close>
  afterwards; \<open>steady_world\<close> always draws \<open>0.25\<close>.
\<close>

definition sample_parse :: "string \<Rightarrow> int option" where
  "sample_parse s =
     (if s = ''2024-01-01T00:00:00Z'' then Some 1704067200000
      else if s = ''2024-01-01T05:30:00Z'' then Some 1704087000000
      else None)"

definition sample_world :: world where
  "sample_world =
     \<lparr>console = [], retryQueue = [],
      random_draws = (\<lambda>n. if n = 0 then 1 / 4 else 3 / 4), random_pos = 0,
      round_double = (\<lambda>x. x), date_parse = sample_parse\<rparr>"

definition steady_world :: world where
  "steady_world =
     \<lparr>console = [], retryQueue = [], random_draws = (\<lambda>n. 1 / 4), random_pos = 0,
      round_double = (\<lambda>x. x), date_parse = sample_parse\<rparr>"

definition empty_push :: GithubWebhookPayload where
  "empty_push =
     \<lparr>action = None, pull_request = None, commits = None,
      repository = Some \<lparr>full_name = ''acme/shop'', repo_id = 7\<rparr>\<rparr>"

definition merged_pr :: GithubWebhookPayload where
  "merged_pr =
     \<lparr>action = Some ''closed'',
      pull_request = Some
        \<lparr>pr_id = 501, pr_number = 42, pr_title = ''Fix checkout'',
         pr_user = Some \<lparr>login = ''octocat''\<rparr>, pr_additions = 10, pr_deletions = 2,
         created_at = ''2024-01-01T00:00:00Z'', merged_at = Some ''2024-01-01T05:30:00Z''\<rparr>,
      commits = None,
      repository = Some \<lparr>full_name = ''acme/shop'', repo_id = 7\<rparr>\<rparr>"





definition issue_with_status :: "string \<Rightarrow> string \<Rightarrow> JiraWebhookPayload" where
  "issue_with_status kind label =
     \<lparr>timestamp = 0, webhookEvent = kind,
      issue = Some
        \<lparr>issue_id = ''10001'', issue_key = ''PROJ-1'',
         issue_fields = Some
           \<lparr>summary = ''Checkout fails'',
            fields_status = Some \<lparr>status_name = label, status_id = ''3''\<rparr>,
            updated = ''2024-01-01T00:00:00Z''\<rparr>\<rparr>\<rparr>"

definition issue_without_fields :: JiraWebhookPayload where
  "issue_without_fields =
     \<lparr>timestamp = 0, webhookEvent = ''jira:issue_updated'',
      issue = Some \<lparr>issue_id = ''10002'', issue_key = ''PROJ-2'', issue_fields = None\<rparr>\<rparr>"

section \<open>Basic facts\<close>

lemmas eval_defs =
  syncIssue_def syncIssue_try_def resolveInternalEntity_def Math_random_def persistUpdate_def
  queueForRetry_def emit_def Let_def mapJiraStatusToInternal_def getProperty_def statusMap_def
  Object_prototype_def show_int_def show_nat.simps digit_char_def persistWrites_def
  persistedStatus_def handleWebhook_def isValidSignature_def runTask_def

lemma persistWrites_emit:
  "persistWrites (emit e w) = persistWrites w @ (if isPersist e then [e] else [])"
  by (simp add: persistWrites_def emit_def)

lemma retryQueue_emit: "retryQueue (emit e w) = retryQueue w"
  by (simp add: emit_def)

subsection \<open>Rendered numbers are distinct\<close>

lemma digit_cases: "d < 10 \<Longrightarrow> d \<in> {0, 1, 2, 3, 4, 5, 6, 7, 8, 9::nat}"
  by auto

lemma of_char_digit_char: "d < 10 \<Longrightarrow> of_char (digit_char d) - 48 = d"
  using digit_cases [of d] by (auto simp: digit_char_def)

lemma digit_char_in: "d < 10 \<Longrightarrow> digit_char d \<in> set ''0123456789''"
  using digit_cases [of d] by (auto simp: digit_char_def)

lemma read_nat_snoc: "read_nat (s @ [c]) = 10 * read_nat s + (of_char c - 48)"
  by (simp add: read_nat_def)

lemma read_show_nat: "read_nat (show_nat n) = n"
proof (induction n rule: show_nat.induct)
  case (1 n)
  show ?case
  proof (cases "n < 10")
    case True
    then show ?thesis
      by (subst show_nat.simps) (simp add: read_nat_def of_char_digit_char)
  next
    case False
    then have "read_nat (show_nat (n div 10)) = n div 10"
      using 1 by simp
    with False show ?thesis
      by (subst show_nat.simps) (simp add: read_nat_snoc of_char_digit_char)
  qed
qed

lemma show_nat_inject: "show_nat m = show_nat n \<longleftrightarrow> m = n"
  by (metis read_show_nat)

lemma show_nat_digits: "set (show_nat n) \<subseteq> set ''0123456789''"
proof (induction n rule: show_nat.induct)
  case (1 n)
  show ?case
  proof (cases "n < 10")
    case True
    then show ?thesis
      using digit_char_in [of n] by (subst show_nat.simps) simp
  next
    case False
    then have "set (show_nat (n div 10)) \<subseteq> set ''0123456789''"
      using 1 by simp
    moreover have "digit_char (n mod 10) \<in> set ''0123456789''"
      by (rule digit_char_in) simp
    ultimately show ?thesis
      using False by (subst show_nat.simps) simp
  qed
qed

lemma show_nat_no_minus: "CHR ''-'' # s \<noteq> show_nat n"
proof
  assume "CHR ''-'' # s = show_nat n"
  then have "CHR ''-'' \<in> set (show_nat n)"
    by (metis list.set_intros(1))
  then show False
    using show_nat_digits [of n] by auto
qed

lemma show_int_inject: "show_int i = show_int j \<longleftrightarrow> i = j"
proof
  assume eq: "show_int i = show_int j"
  show "i = j"
  proof (cases "i < 0")
    case i: True
    show ?thesis
    proof (cases "j < 0")
      case True
      with i eq have "nat (- i) = nat (- j)"
        by (simp add: show_int_def show_nat_inject)
      with i True show ?thesis by simp
    next
      case False
      with i eq show ?thesis
        using show_nat_no_minus [of "show_nat (nat (- i))" "nat j"] by (simp add: show_int_def)
    qed
  next
    case i: False
    show ?thesis
    proof (cases "j < 0")
      case True
      with i eq show ?thesis
        using show_nat_no_minus [of "show_nat (nat (- j))" "nat i"] by (simp add: show_int_def)
    next
      case False
      with i eq have "nat i = nat j"
        by (simp add: show_int_def show_nat_inject)
      with i False show ?thesis by simp
    qed
  qed
qed simp

subsection \<open>The two ways \<^verbatim>\<open>syncIssue\<close> returns\<close>

lemma syncIssue_wellformed:
  assumes "issue payload = Some iss" "issue_fields iss = Some fs" "fields_status fs = Some st"
  shows "syncIssue payload w =
    (Inr \<lparr>status = SUCCESS, externalId = issue_id iss,
          internalId =
            Some (''SHIP-'' @ show_int \<lfloor>round_double w (random_draws w (random_pos w) * 1000)\<rfloor>),
          error = None\<rparr>,
     w\<lparr>console := console w @
          [JIRA_SYNC_Processing (webhookEvent payload) (issue_key iss),
           JIRA_SYNC_Mapping (issue_key iss) (mapJiraStatusToInternal (status_name st)),
           DB_PERSIST_Entity
             (''SHIP-'' @ show_int \<lfloor>round_double w (random_draws w (random_pos w) * 1000)\<rfloor>)
             (mapJiraStatusToInternal (status_name st))],
        random_pos := Suc (random_pos w)\<rparr>)"
  using assms
  by (simp add: syncIssue_def syncIssue_try_def resolveInternalEntity_def Math_random_def
      persistUpdate_def emit_def Let_def)

lemma syncIssue_malformed:
  assumes "issue payload = Some iss"
    and "issue_fields iss = None \<or> (\<exists>fs. issue_fields iss = Some fs \<and> fields_status fs = None)"
  shows "\<exists>err. syncIssue payload w =
    (Inr \<lparr>status = RETRY_QUEUED, externalId = issue_id iss, internalId = None, error = Some err\<rparr>,
     w\<lparr>console := console w @
          [JIRA_SYNC_Processing (webhookEvent payload) (issue_key iss),
           JIRA_SYNC_Failed (issue_key iss) err,
           JIRA_RETRY_Queuing (issue_key iss)],
        retryQueue := retryQueue w @ [SyncIssueTask payload],
        random_pos := Suc (random_pos w)\<rparr>)"
  using assms
  by (auto simp add: syncIssue_def syncIssue_try_def resolveInternalEntity_def Math_random_def
      queueForRetry_def emit_def Let_def)

lemma syncIssue_no_issue:
  "issue payload = None \<Longrightarrow> syncIssue payload w = (Inl (TypeError ''key''), w)"
  by (simp add: syncIssue_def)

lemma lastStatus_snoc_persist:
  "lastStatus ident (es @ [DB_PERSIST_Entity ident st]) = Some st"
  by (induction ident es rule: lastStatus.induct) simp_all

lemma reattempts_malformed:
  assumes "issue payload = Some iss"
    and "issue_fields iss = None \<or> (\<exists>fs. issue_fields iss = Some fs \<and> fields_status fs = None)"
  shows "retryQueue (reattempts n payload w) = retryQueue w @ replicate n (SyncIssueTask payload)"
proof (induction n arbitrary: w)
  case 0
  show ?case by simp
next
  case (Suc n)
  from syncIssue_malformed [OF assms, of w]
  have "retryQueue (snd (syncIssue payload w)) = retryQueue w @ [SyncIssueTask payload]"
    by auto
  with Suc [of "snd (syncIssue payload w)"] show ?case
    by (simp add: runTask_def replicate_app_Cons_same)
qed

lemma issue_without_fields_malformed:
  "issue issue_without_fields
      = Some \<lparr>issue_id = ''10002'', issue_key = ''PROJ-2'', issue_fields = None\<rparr>"
  "issue_fields \<lparr>issue_id = ''10002'', issue_key = ''PROJ-2'', issue_fields = None\<rparr> = None
      \<or> (\<exists>fs. issue_fields \<lparr>issue_id = ''10002'', issue_key = ''PROJ-2'', issue_fields = None\<rparr>
            = Some fs \<and> fields_status fs = None)"
  by (simp_all add: issue_without_fields_def)

subsection \<open>Accumulated rounding error of the merge-time computation\<close>







section \<open>Signature verification\<close>

text \<open>
  C1, as stated, fails. The claim: verify returns false whenever the provided signature
  is not the HMAC-SHA-256 of the raw body under the secret, or is malformed. Both handlers
  accept the two different one-letter signatures \<open>a\<close> and \<open>b\<close> for one and the same
  body: at most one of them can be the HMAC of that body, and neither has the shape of a
  SHA-256 digest.
\<close>

theorem verify_accepts_any_nonempty_counterexample:
  "verifySignature (Some ''a'') empty_push \<and> verifySignature (Some ''b'') empty_push
   \<and> isValidSignature (Some ''a'') \<and> isValidSignature (Some ''b'') \<and> ''a'' \<noteq> ''b''"
  by (simp add: verifySignature_def isValidSignature_def)

text \<open>
  C1, amended: both checks are placeholders that accept a signature exactly when it is
  present and not the empty string; they return false when it is absent or empty, and
  neither the body nor any secret plays a part.
\<close>

theorem verify_iff_nonempty:
  "verifySignature sig payload = (sig \<noteq> None \<and> sig \<noteq> Some [])
   \<and> isValidSignature sig = (sig \<noteq> None \<and> sig \<noteq> Some [])"
  by (cases sig) (simp_all add: verifySignature_def isValidSignature_def)

text \<open>C1, amended, at an absent, an empty and a non-empty signature.\<close>

theorem verify_iff_nonempty_witness:
  "\<not> verifySignature None merged_pr \<and> \<not> verifySignature (Some []) merged_pr
   \<and> verifySignature (Some ''sha256=00'') merged_pr
   \<and> \<not> isValidSignature None \<and> \<not> isValidSignature (Some [])
   \<and> isValidSignature (Some ''sha256=00'')"
  using verify_iff_nonempty [of None merged_pr] verify_iff_nonempty [of "Some []" merged_pr]
    verify_iff_nonempty [of "Some ''sha256=00''" merged_pr]
  by simp

section \<open>Entity resolution\<close>

text \<open>
  C2, as stated, fails. The claim: calling resolve twice for one key returns the same
  internal id the second time as the first. Two calls in a row for the key \<open>PROJ-1\<close>
  return \<open>SHIP-250\<close> and then \<open>SHIP-750\<close> when the random source yields \<open>0.25\<close> and
  then \<open>0.75\<close>; the first call leaves the console and the retry queue as they were,
  so the second call starts from the same stored state.
\<close>

theorem resolve_twice_differs_counterexample:
  "fst (resolveInternalEntity ''PROJ-1'' sample_world) = ''SHIP-250''
   \<and> fst (resolveInternalEntity ''PROJ-1'' (snd (resolveInternalEntity ''PROJ-1'' sample_world)))
       = ''SHIP-750''
   \<and> console (snd (resolveInternalEntity ''PROJ-1'' sample_world)) = console sample_world
   \<and> retryQueue (snd (resolveInternalEntity ''PROJ-1'' sample_world)) = retryQueue sample_world"
  by (simp add: resolveInternalEntity_def Math_random_def sample_world_def show_int_def
      show_nat.simps digit_char_def)

text \<open>
  C2, amended: resolution is a placeholder that ignores the key and stores no mapping.
  Each call returns \<open>SHIP-\<close> followed by the integer part of a fresh random draw times
  1000, so two calls in a row return the same id exactly when their two draws have the
  same integer part after that scaling; the calls write nothing to the console or the
  retry queue and only consume the two draws.
\<close>

theorem resolve_twice_same_iff_draws_agree:
  "resolveInternalEntity k w = (id1, w1) \<Longrightarrow> resolveInternalEntity k w1 = (id2, w2) \<Longrightarrow>
     (id1 = id2 \<longleftrightarrow>
        \<lfloor>round_double w (random_draws w (random_pos w) * 1000)\<rfloor>
          = \<lfloor>round_double w (random_draws w (Suc (random_pos w)) * 1000)\<rfloor>)
     \<and> console w2 = console w \<and> retryQueue w2 = retryQueue w
     \<and> random_pos w2 = random_pos w + 2"
  by (auto simp: resolveInternalEntity_def Math_random_def show_int_inject)

text \<open>C2, amended, at the two calls of the counterexample.\<close>

theorem resolve_twice_same_iff_draws_agree_witness:
  "resolveInternalEntity ''PROJ-1'' sample_world
     = (''SHIP-250'', sample_world\<lparr>random_pos := 1\<rparr>)
   \<and> resolveInternalEntity ''PROJ-1'' (sample_world\<lparr>random_pos := 1\<rparr>)
     = (''SHIP-750'', sample_world\<lparr>random_pos := 2\<rparr>)
   \<and> ''SHIP-250'' \<noteq> ''SHIP-750''
   \<and> console (sample_world\<lparr>random_pos := 2\<rparr>) = console sample_world"
proof -
  have a: "resolveInternalEntity ''PROJ-1'' sample_world
     = (''SHIP-250'', sample_world\<lparr>random_pos := 1\<rparr>)"
    by (simp add: resolveInternalEntity_def Math_random_def sample_world_def show_int_def
        show_nat.simps digit_char_def)
  have b: "resolveInternalEntity ''PROJ-1'' (sample_world\<lparr>random_pos := 1\<rparr>)
     = (''SHIP-750'', sample_world\<lparr>random_pos := 2\<rparr>)"
    by (simp add: resolveInternalEntity_def Math_random_def sample_world_def show_int_def
        show_nat.simps digit_char_def)
  from resolve_twice_same_iff_draws_agree [OF a b] a b show ?thesis by simp
qed

section \<open>Status overwriting\<close>

text \<open>
  C3, as stated, fails. The claim: once the persisted status of an entity is a known
  status, an event whose label normalizes to UNKNOWN leaves it unchanged. With a random
  source that resolves both events to \<open>SHIP-250\<close>, an event with label \<open>Done\<close> persists
  RELEASED, and a following event with the unmapped label \<open>Blocked\<close> persists UNKNOWN
  over it.
\<close>

theorem unknown_overwrites_known_counterexample:
  "persistedStatus ''SHIP-250''
     (snd (syncIssue (issue_with_status ''jira:issue_updated'' ''Done'') steady_world))
     = Some (JString ''RELEASED'')
   \<and> mapJiraStatusToInternal ''Blocked'' = JString ''UNKNOWN''
   \<and> persistedStatus ''SHIP-250''
     (snd (syncIssue (issue_with_status ''jira:issue_updated'' ''Blocked'')
        (snd (syncIssue (issue_with_status ''jira:issue_updated'' ''Done'') steady_world))))
     = Some (JString ''UNKNOWN'')"
  by (simp add: eval_defs issue_with_status_def steady_world_def)

text \<open>
  C3, amended: the sync has no guard on the previous status. Every call on a payload
  whose issue, fields and status are present succeeds and persists the normalized status
  of its own label for the entity it resolved, so that after the call this status,
  UNKNOWN included, is the persisted status of that entity whatever was persisted before.
\<close>

theorem syncIssue_persists_unconditionally:
  assumes "issue payload = Some iss" "issue_fields iss = Some fs" "fields_status fs = Some st"
  shows "\<exists>res ident w'. syncIssue payload w = (Inr res, w')
     \<and> status res = SUCCESS \<and> internalId res = Some ident
     \<and> persistedStatus ident w' = Some (mapJiraStatusToInternal (status_name st))"
  using syncIssue_wellformed [OF assms, of w]
    lastStatus_snoc_persist [of _ "console w @ [_, _]"]
  by (simp add: persistedStatus_def)

text \<open>C3, amended, at the second event of the counterexample.\<close>

theorem syncIssue_persists_unconditionally_witness:
  "\<exists>res w'. syncIssue (issue_with_status ''jira:issue_updated'' ''Blocked'')
       (snd (syncIssue (issue_with_status ''jira:issue_updated'' ''Done'') steady_world))
       = (Inr res, w')
     \<and> internalId res = Some ''SHIP-250''
     \<and> persistedStatus ''SHIP-250'' w' = Some (JString ''UNKNOWN'')"
proof -
  let ?p = "issue_with_status ''jira:issue_updated'' ''Blocked''"
  let ?st = "\<lparr>status_name = ''Blocked'', status_id = ''3''\<rparr>"
  let ?fs = "\<lparr>summary = ''Checkout fails'', fields_status = Some ?st,
      updated = ''2024-01-01T00:00:00Z''\<rparr>"
  let ?iss = "\<lparr>issue_id = ''10001'', issue_key = ''PROJ-1'', issue_fields = Some ?fs\<rparr>"
  let ?w = "snd (syncIssue (issue_with_status ''jira:issue_updated'' ''Done'') steady_world)"
  have a: "issue ?p = Some ?iss" by (simp add: issue_with_status_def)
  have b: "issue_fields ?iss = Some ?fs" by simp
  have c: "fields_status ?fs = Some ?st" by simp
  from syncIssue_persists_unconditionally [OF a b c, of ?w]
  obtain res ident w' where r: "syncIssue ?p ?w = (Inr res, w')" "internalId res = Some ident"
    "persistedStatus ident w' = Some (mapJiraStatusToInternal (status_name ?st))"
    by blast
  have "internalId res = Some ''SHIP-250''"
    using r(1) by (auto simp: eval_defs issue_with_status_def steady_world_def)
  with r show ?thesis
    by (simp add: mapJiraStatusToInternal_def getProperty_def statusMap_def Object_prototype_def)
qed

section \<open>Rejection of unsigned requests\<close>

text \<open>
  C4: when the signature check of a handler fails, the handler returns its unauthorized
  outcome (\<open>UNAUTHORIZED\<close> for GitHub, status code 401 for Jira), the retry queue is
  left as it was and no persistence write is made.
\<close>

theorem invalid_signature_rejected:
  "(\<not> verifySignature (headers ''x-hub-signature-256'') body \<longrightarrow>
      fst (handleEvent headers body w) = Inr ''UNAUTHORIZED''
      \<and> retryQueue (snd (handleEvent headers body w)) = retryQueue w
      \<and> persistWrites (snd (handleEvent headers body w)) = persistWrites w)
   \<and> (\<not> isValidSignature sig \<longrightarrow>
      fst (handleWebhook jbody sig w) = Inr 401
      \<and> retryQueue (snd (handleWebhook jbody sig w)) = retryQueue w
      \<and> persistWrites (snd (handleWebhook jbody sig w)) = persistWrites w)"
  by (simp add: handleEvent_def handleWebhook_def Let_def persistWrites_emit retryQueue_emit)

text \<open>
  C4 at a pull-request event without a signature header and a Jira event with an empty
  signature.
\<close>

theorem invalid_signature_rejected_witness:
  "\<not> verifySignature ([''x-github-event'' \<mapsto> ''pull_request''] ''x-hub-signature-256'') merged_pr
   \<and> fst (handleEvent [''x-github-event'' \<mapsto> ''pull_request''] merged_pr sample_world)
       = Inr ''UNAUTHORIZED''
   \<and> persistWrites (snd (handleEvent [''x-github-event'' \<mapsto> ''pull_request''] merged_pr
        sample_world)) = []
   \<and> \<not> isValidSignature (Some [])
   \<and> fst (handleWebhook (issue_with_status ''jira:issue_updated'' ''Done'') (Some []) sample_world)
       = Inr 401
   \<and> retryQueue (snd (handleWebhook (issue_with_status ''jira:issue_updated'' ''Done'') (Some [])
        sample_world)) = []"
proof -
  have a: "\<not> verifySignature ([''x-github-event'' \<mapsto> ''pull_request''] ''x-hub-signature-256'')
      merged_pr"
    by (simp add: verifySignature_def)
  have b: "\<not> isValidSignature (Some [])"
    by (simp add: isValidSignature_def)
  have c: "retryQueue sample_world = []" "persistWrites sample_world = []"
    by (simp_all add: sample_world_def persistWrites_def)
  from invalid_signature_rejected [where headers = "[''x-github-event'' \<mapsto> ''pull_request'']"
      and body = merged_pr and w = sample_world and sig = "Some []"
      and jbody = "issue_with_status ''jira:issue_updated'' ''Done''"] a b c
  show ?thesis by simp
qed

section \<open>The retry queue\<close>

text \<open>
  C5, as stated, fails. The claim: the attempt count of a retry task strictly increases
  on each re-attempt, with a growing backoff, until a maximum is exceeded and the task
  becomes DEAD and is never retried again. A payload without fields fails on every
  attempt; the tasks queued by its first and by its second attempt are equal, so nothing
  read off a task can increase from one to the next, and after five attempts a sixth is
  queued all the same.
\<close>

theorem retry_tasks_identical_counterexample:
  "retryQueue (reattempts 2 issue_without_fields steady_world)
     = [SyncIssueTask issue_without_fields, SyncIssueTask issue_without_fields]
   \<and> map_sum id status (fst (runTask (SyncIssueTask issue_without_fields)
        (reattempts 5 issue_without_fields steady_world))) = Inr RETRY_QUEUED"
proof -
  have "retryQueue steady_world = []"
    by (simp add: steady_world_def)
  with reattempts_malformed [OF issue_without_fields_malformed, of 2 steady_world]
  have a: "retryQueue (reattempts 2 issue_without_fields steady_world)
     = [SyncIssueTask issue_without_fields, SyncIssueTask issue_without_fields]"
    by (simp add: eval_nat_numeral)
  from syncIssue_malformed [OF issue_without_fields_malformed,
      of "reattempts 5 issue_without_fields steady_world"]
  have "map_sum id status (fst (runTask (SyncIssueTask issue_without_fields)
        (reattempts 5 issue_without_fields steady_world))) = Inr RETRY_QUEUED"
    by (auto simp: runTask_def)
  with a show ?thesis by simp
qed

text \<open>
  C5, amended: a retry task is only the captured payload; it has no attempt count, no
  backoff delay and no terminal state. For a payload that fails (its issue is present but
  its fields or its status are missing), every attempt appends one more task, equal to
  the earlier ones, to the in-memory queue and returns RETRY_QUEUED, after any number of
  earlier attempts.
\<close>

theorem every_reattempt_requeues:
  assumes "issue payload = Some iss"
    and "issue_fields iss = None \<or> (\<exists>fs. issue_fields iss = Some fs \<and> fields_status fs = None)"
  shows "retryQueue (reattempts n payload w) = retryQueue w @ replicate n (SyncIssueTask payload)
    \<and> (\<exists>res w'. runTask (SyncIssueTask payload) (reattempts n payload w) = (Inr res, w')
          \<and> status res = RETRY_QUEUED
          \<and> retryQueue w' = retryQueue w @ replicate (Suc n) (SyncIssueTask payload))"
proof -
  have q: "retryQueue (reattempts n payload w) = retryQueue w @ replicate n (SyncIssueTask payload)"
    by (rule reattempts_malformed [OF assms])
  from syncIssue_malformed [OF assms, of "reattempts n payload w"] q
  show ?thesis
    by (auto simp: runTask_def replicate_append_same)
qed

text \<open>C5, amended, at the fourth attempt on the payload without fields.\<close>

theorem every_reattempt_requeues_witness:
  "retryQueue (reattempts 3 issue_without_fields steady_world)
     = replicate 3 (SyncIssueTask issue_without_fields)
   \<and> (\<exists>res w'. runTask (SyncIssueTask issue_without_fields)
          (reattempts 3 issue_without_fields steady_world) = (Inr res, w')
        \<and> status res = RETRY_QUEUED
        \<and> retryQueue w' = replicate 4 (SyncIssueTask issue_without_fields))"
proof -
  have c: "retryQueue steady_world = []"
    by (simp add: steady_world_def)
  from every_reattempt_requeues [OF issue_without_fields_malformed, of 3 steady_world] c
  show ?thesis
    by (simp add: eval_nat_numeral)
qed

section \<open>Status normalization\<close>

text \<open>
  C6 holds of the four labels of the table and of every other label that is not a
  property name of \<^verbatim>\<open>Object.prototype\<close>.
\<close>

lemma mapJiraStatusToInternal_table:
  "mapJiraStatusToInternal ''To Do'' = JString ''BACKLOG''"
  "mapJiraStatusToInternal ''In Progress'' = JString ''ACTIVE''"
  "mapJiraStatusToInternal ''Done'' = JString ''RELEASED''"
  "mapJiraStatusToInternal ''Closed'' = JString ''RELEASED''"
  by (simp_all add: mapJiraStatusToInternal_def getProperty_def statusMap_def)

lemma mapJiraStatusToInternal_unmapped:
  "st \<notin> {''To Do'', ''In Progress'', ''Done'', ''Closed''} \<Longrightarrow> st \<notin> set Object_prototype \<Longrightarrow>
     mapJiraStatusToInternal st = JString ''UNKNOWN''"
  by (simp add: mapJiraStatusToInternal_def getProperty_def statusMap_def)

text \<open>
  C6 fails in the code at the label \<open>constructor\<close>, which is outside the table: the
  lookup \<^verbatim>\<open>statusMap[status]\<close> finds the member that the object literal inherits from
  \<^verbatim>\<open>Object.prototype\<close>, a function, which is truthy, so the fallback to UNKNOWN is not
  taken and the function returns a value that is not a status string at all.
\<close>

theorem mapJiraStatusToInternal_inherited_key:
  "mapJiraStatusToInternal ''constructor'' = JInherited ''constructor''
   \<and> mapJiraStatusToInternal ''constructor'' \<noteq> JString ''UNKNOWN''"
  by (simp add: mapJiraStatusToInternal_def getProperty_def statusMap_def Object_prototype_def)

section \<open>One effect per sync\<close>

text \<open>
  C7: a call of \<^verbatim>\<open>syncIssue\<close> that returns SUCCESS has made exactly one persistence write
  and left the retry queue as it was; a call that returns RETRY_QUEUED has appended
  exactly one task to the retry queue and made no persistence write; no call does both.
\<close>

theorem syncIssue_write_xor_enqueue:
  assumes "syncIssue payload w = (r, w')"
  shows "(\<forall>res. r = Inr res \<and> status res = SUCCESS \<longrightarrow>
            (\<exists>e. persistWrites w' = persistWrites w @ [e]) \<and> retryQueue w' = retryQueue w)
       \<and> (\<forall>res. r = Inr res \<and> status res = RETRY_QUEUED \<longrightarrow>
            retryQueue w' = retryQueue w @ [SyncIssueTask payload]
            \<and> persistWrites w' = persistWrites w)
       \<and> \<not> (persistWrites w' \<noteq> persistWrites w \<and> retryQueue w' \<noteq> retryQueue w)"
proof (cases "issue payload")
  case None
  with assms show ?thesis by (auto simp: syncIssue_no_issue)
next
  case (Some iss)
  show ?thesis
  proof (cases "issue_fields iss = None \<or> (\<exists>fs. issue_fields iss = Some fs \<and> fields_status fs = None)")
    case True
    from syncIssue_malformed [OF Some True, of w] assms show ?thesis
      by (auto simp: persistWrites_def)
  next
    case False
    then obtain fs st where "issue_fields iss = Some fs" "fields_status fs = Some st"
      by auto
    from syncIssue_wellformed [OF Some this, of w] assms show ?thesis
      by (auto simp: persistWrites_def)
  qed
qed

text \<open>C7 at a call that succeeds and at a call that is queued for retry.\<close>

theorem syncIssue_write_xor_enqueue_witness:
  "(\<exists>res w'. syncIssue (issue_with_status ''jira:issue_updated'' ''Done'') steady_world = (Inr res, w')
      \<and> status res = SUCCESS
      \<and> persistWrites w' = [DB_PERSIST_Entity ''SHIP-250'' (JString ''RELEASED'')]
      \<and> retryQueue w' = [])
   \<and> (\<exists>res w'. syncIssue issue_without_fields steady_world = (Inr res, w')
      \<and> status res = RETRY_QUEUED
      \<and> retryQueue w' = [SyncIssueTask issue_without_fields]
      \<and> persistWrites w' = [])"
proof -
  obtain r1 w1 where a: "syncIssue (issue_with_status ''jira:issue_updated'' ''Done'') steady_world = (r1, w1)"
    by (cases "syncIssue (issue_with_status ''jira:issue_updated'' ''Done'') steady_world")
  obtain r2 w2 where b: "syncIssue issue_without_fields steady_world = (r2, w2)"
    by (cases "syncIssue issue_without_fields steady_world")
  have a': "\<exists>res. r1 = Inr res \<and> status res = SUCCESS"
    using a by (auto simp: eval_defs issue_with_status_def steady_world_def)
  have b': "\<exists>res. r2 = Inr res \<and> status res = RETRY_QUEUED"
    using b by (auto simp: eval_defs issue_without_fields_def steady_world_def)
  have c: "persistWrites steady_world = []" "retryQueue steady_world = []"
    by (simp_all add: persistWrites_def steady_world_def)
  have d: "DB_PERSIST_Entity ''SHIP-250'' (JString ''RELEASED'') \<in> set (console w1)"
    using a by (auto simp: eval_defs issue_with_status_def steady_world_def)
  from syncIssue_write_xor_enqueue [OF a] a' c
  obtain e where e: "persistWrites w1 = [e]" "retryQueue w1 = []"
    by auto
  have "DB_PERSIST_Entity ''SHIP-250'' (JString ''RELEASED'') \<in> set (persistWrites w1)"
    using d by (simp add: persistWrites_def)
  with e have "persistWrites w1 = [DB_PERSIST_Entity ''SHIP-250'' (JString ''RELEASED'')]"
    by simp
  moreover from syncIssue_write_xor_enqueue [OF b] b' c
  have "retryQueue w2 = [SyncIssueTask issue_without_fields]" "persistWrites w2 = []"
    by auto
  ultimately show ?thesis
    using a b a' b' e by auto
qed

section \<open>Time to merge\<close>



section \<open>Event kinds without handling\<close>

text \<open>
  C9, as stated, fails for Jira. The claim: a validly signed webhook of a kind without
  handling, such as \<open>jira:issue_deleted\<close>, is accepted with zero persistence writes. The
  Jira handler does not look at the kind: a signed \<open>jira:issue_deleted\<close> event for an
  issue with status \<open>Done\<close> is synced, which writes RELEASED for the resolved entity, and
  is answered with status code 200.
\<close>

theorem issue_deleted_is_synced_counterexample:
  "fst (handleWebhook (issue_with_status ''jira:issue_deleted'' ''Done'') (Some ''sig'') steady_world)
     = Inr 200
   \<and> persistWrites (snd (handleWebhook (issue_with_status ''jira:issue_deleted'' ''Done'')
        (Some ''sig'') steady_world))
     = [DB_PERSIST_Entity ''SHIP-250'' (JString ''RELEASED'')]"
  by (simp add: eval_defs issue_with_status_def steady_world_def)

text \<open>
  C9, amended: a signed GitHub webhook whose event kind is neither \<open>pull_request\<close> nor
  \<open>push\<close> (or is missing) is answered with \<open>ACCEPTED\<close> and makes no persistence write
  and no retry task. The Jira handler has no routing by kind: a signed Jira webhook of any
  kind, \<open>jira:issue_deleted\<close> included, whose issue, fields and status are present is
  synced, makes exactly one persistence write, of the normalized status for the resolved
  entity, and is answered with status code 200.
\<close>

theorem unrouted_kinds:
  "(verifySignature (headers ''x-hub-signature-256'') body
      \<and> headers ''x-github-event'' \<noteq> Some ''pull_request''
      \<and> headers ''x-github-event'' \<noteq> Some ''push'' \<longrightarrow>
      fst (handleEvent headers body w) = Inr ''ACCEPTED''
      \<and> persistWrites (snd (handleEvent headers body w)) = persistWrites w
      \<and> retryQueue (snd (handleEvent headers body w)) = retryQueue w)
   \<and> (isValidSignature sig \<and> issue jbody = Some iss \<and> issue_fields iss = Some fs
      \<and> fields_status fs = Some st \<longrightarrow>
      fst (handleWebhook jbody sig w) = Inr 200
      \<and> persistWrites (snd (handleWebhook jbody sig w))
          = persistWrites w @
              [DB_PERSIST_Entity
                 (''SHIP-'' @ show_int \<lfloor>round_double w (random_draws w (random_pos w) * 1000)\<rfloor>)
                 (mapJiraStatusToInternal (status_name st))])"
proof -
  have "fst (handleWebhook jbody sig w) = Inr 200
      \<and> persistWrites (snd (handleWebhook jbody sig w))
          = persistWrites w @
              [DB_PERSIST_Entity
                 (''SHIP-'' @ show_int \<lfloor>round_double w (random_draws w (random_pos w) * 1000)\<rfloor>)
                 (mapJiraStatusToInternal (status_name st))]"
    if "isValidSignature sig" "issue jbody = Some iss" "issue_fields iss = Some fs"
      "fields_status fs = Some st"
    using that(1) syncIssue_wellformed [OF that(2-4), of "emit JIRA_WEBHOOK_Received w"]
    by (simp add: handleWebhook_def Let_def persistWrites_def emit_def)
  then show ?thesis
    by (simp add: handleEvent_def Let_def persistWrites_emit retryQueue_emit)
qed

text \<open>
  C9, amended, at a signed GitHub event of kind \<open>issues\<close> and at the signed
  \<open>jira:issue_deleted\<close> event of the counterexample.
\<close>

theorem unrouted_kinds_witness:
  "fst (handleEvent
          [''x-github-event'' \<mapsto> ''issues'', ''x-hub-signature-256'' \<mapsto> ''sha256=00'']
          merged_pr steady_world) = Inr ''ACCEPTED''
   \<and> persistWrites (snd (handleEvent
          [''x-github-event'' \<mapsto> ''issues'', ''x-hub-signature-256'' \<mapsto> ''sha256=00'']
          merged_pr steady_world)) = []
   \<and> fst (handleWebhook (issue_with_status ''jira:issue_deleted'' ''Done'') (Some ''sig'')
          steady_world) = Inr 200
   \<and> persistWrites (snd (handleWebhook (issue_with_status ''jira:issue_deleted'' ''Done'')
          (Some ''sig'') steady_world))
       = [DB_PERSIST_Entity ''SHIP-250'' (JString ''RELEASED'')]"
proof -
  let ?hs = "[''x-github-event'' \<mapsto> ''issues'', ''x-hub-signature-256'' \<mapsto> ''sha256=00'']"
  let ?st = "\<lparr>status_name = ''Done'', status_id = ''3''\<rparr>"
  let ?fs = "\<lparr>summary = ''Checkout fails'', fields_status = Some ?st,
      updated = ''2024-01-01T00:00:00Z''\<rparr>"
  let ?iss = "\<lparr>issue_id = ''10001'', issue_key = ''PROJ-1'', issue_fields = Some ?fs\<rparr>"
  have a: "verifySignature (?hs ''x-hub-signature-256'') merged_pr
      \<and> ?hs ''x-github-event'' \<noteq> Some ''pull_request''
      \<and> ?hs ''x-github-event'' \<noteq> Some ''push''"
    by (simp add: verifySignature_def)
  have b: "isValidSignature (Some ''sig'')
      \<and> issue (issue_with_status ''jira:issue_deleted'' ''Done'') = Some ?iss
      \<and> issue_fields ?iss = Some ?fs \<and> fields_status ?fs = Some ?st"
    by (simp add: isValidSignature_def issue_with_status_def)
  have c: "persistWrites steady_world = []"
    by (simp add: persistWrites_def steady_world_def)
  have d: "''SHIP-'' @ show_int
        \<lfloor>round_double steady_world (random_draws steady_world (random_pos steady_world) * 1000)\<rfloor>
      = ''SHIP-250''"
    by (simp add: steady_world_def show_int_def show_nat.simps digit_char_def)
  have e: "mapJiraStatusToInternal (status_name ?st) = JString ''RELEASED''"
    by (simp add: mapJiraStatusToInternal_def getProperty_def statusMap_def)
  from unrouted_kinds [where headers = ?hs and body = merged_pr and w = steady_world
      and sig = "Some ''sig''" and jbody = "issue_with_status ''jira:issue_deleted'' ''Done''"
      and iss = ?iss and fs = ?fs and st = ?st] a b c d e
  show ?thesis by simp
qed

section \<open>Payloads without a pull request\<close>

text \<open>
  C10: when the \<^verbatim>\<open>pull_request\<close> field of the payload is absent, \<^verbatim>\<open>trackPullRequest\<close>
  returns null and leaves the world as it was: nothing is computed, logged or persisted.
\<close>

theorem trackPullRequest_absent:
  "pull_request payload = None \<Longrightarrow>
     trackPullRequest payload w = (Inr None, w)
     \<and> persistWrites (snd (trackPullRequest payload w)) = persistWrites w"
  by (simp add: trackPullRequest_def)

text \<open>C10 at a push payload, which has no pull request.\<close>

theorem trackPullRequest_absent_witness:
  "pull_request empty_push = None
   \<and> trackPullRequest empty_push sample_world = (Inr None, sample_world)
   \<and> persistWrites (snd (trackPullRequest empty_push sample_world)) = []"
proof -
  have h: "pull_request empty_push = None"
    by (simp add: empty_push_def)
  have "persistWrites sample_world = []"
    by (simp add: persistWrites_def sample_world_def)
  with trackPullRequest_absent [OF h, of sample_world] h show ?thesis
    by simp
qed

end
